theory Spec2Isabelle
  imports Complex_Main
begin

section \<open>JavaScript values\<close>

text \<open>
  The controllers handle untyped request data: route parameters, query strings, the JSON
  body, the session context in \<open>res.locals\<close> and the documents the models return.
  They are modelled by one value type. An object is an association list of its own
  properties, in insertion order. A string is the list of the bytes of its UTF-8
  encoding. The numbers are the doubles: \<open>JNaN\<close>, the two infinities
  (\<open>JInfinity True\<close> is the negative one), the negative zero \<open>JNegZero\<close>, and the
  other finite ones as reals.
\<close>

datatype jsval =
    JUndefined
  | JNull
  | JNaN
  | JInfinity bool
  | JNegZero
  | JBool bool
  | JNum real
  | JStr string
  | JArr "jsval list"
  | JObj "(string \<times> jsval) list"

text \<open>Truthiness, as \<open>!x\<close> tests it.\<close>

fun truthy :: "jsval \<Rightarrow> bool" where
  "truthy JUndefined = False"
| "truthy JNull = False"
| "truthy JNaN = False"
| "truthy (JInfinity negative) = True"
| "truthy JNegZero = False"
| "truthy (JBool b) = b"
| "truthy (JNum n) = (n \<noteq> 0)"
| "truthy (JStr s) = (s \<noteq> [])"
| "truthy (JArr xs) = True"
| "truthy (JObj ps) = True"

text \<open>Reading a property of an object: a missing property reads as \<open>undefined\<close>.\<close>

definition obj_get :: "(string \<times> jsval) list \<Rightarrow> string \<Rightarrow> jsval" where
  "obj_get ps k = (case map_of ps k of None \<Rightarrow> JUndefined | Some v \<Rightarrow> v)"

text \<open>
  Assigning a property (\<open>o.k = v\<close>, and the last entry of a spread literal
  \<open>{...o, k: v}\<close>): an existing property keeps its place and takes the new value, a new
  one is appended.
\<close>

definition obj_set :: "string \<Rightarrow> jsval \<Rightarrow> (string \<times> jsval) list \<Rightarrow> (string \<times> jsval) list" where
  "obj_set k v ps =
     (if k \<in> set (map fst ps)
      then map (\<lambda>(k', v'). if k' = k then (k', v) else (k', v')) ps
      else ps @ [(k, v)])"

text \<open>
  \<open>v.k\<close> on a value that is neither \<open>undefined\<close> nor \<open>null\<close>. The built-in
  properties of strings and arrays are not modelled: no handler reads one.
\<close>

fun read_prop :: "jsval \<Rightarrow> string \<Rightarrow> jsval" where
  "read_prop (JObj ps) k = obj_get ps k"
| "read_prop v k = JUndefined"

section \<open>Errors, effects and the try block\<close>

text \<open>
  Modelled from the spec: the class \<open>CustomError\<close> (\<open>classes/CustomError\<close>) is not
  among the sources. Per the spec every error is an object carrying a message and a
  numeric status; the handlers only construct it, as \<open>new CustomError(message, status)\<close>.
  Any other exception (a rejected database promise, a \<open>TypeError\<close>, an error of the
  hashing library) is an \<open>Error\<close> with a message and no status of its own.
\<close>

datatype js_error =
    CustomError string nat
  | Error string

fun message :: "js_error \<Rightarrow> string" where
  "message (CustomError m s) = m"
| "message (Error m) = m"

fun status :: "js_error \<Rightarrow> nat option" where
  "status (CustomError m s) = Some s"
| "status (Error m) = None"

datatype model = CatModel | UserModel

text \<open>
  A call on a model: the operation with its arguments, and the query modifiers chained
  to it (\<open>.populate(path, fields)\<close>, \<open>.select(fields)\<close>).
\<close>

datatype db_op =
    Find jsval
  | FindById jsval
  | FindByIdAndUpdate jsval jsval jsval
  | FindByIdAndDelete jsval jsval
  | Create jsval

datatype modifier =
    Populate string "string option"
  | Select string

datatype db_call = Query model db_op "modifier list"

text \<open>
  What a handler does, in order: calls on the database, errors handed to \<open>next\<close>,
  bodies sent with \<open>res.json\<close>, and errors written to the console.
\<close>

datatype event =
    Db db_call
  | Next js_error
  | Json jsval
  | Console js_error

text \<open>
  A piece of a try block: the events it performed, and either the exception that ended
  it or its value.
\<close>

type_synonym 'a action = "event list \<times> (js_error + 'a)"

definition resolve :: "'a \<Rightarrow> 'a action" where
  "resolve x = ([], Inr x)"

definition throw :: "js_error \<Rightarrow> 'a action" where
  "throw e = ([], Inl e)"

definition emit :: "event \<Rightarrow> unit action" where
  "emit ev = ([ev], Inr ())"

definition andThen :: "'a action \<Rightarrow> ('a \<Rightarrow> 'b action) \<Rightarrow> 'b action" where
  "andThen m f =
     (case m of
        (t, Inl e) \<Rightarrow> (t, Inl e)
      | (t, Inr x) \<Rightarrow> (case f x of (t', r) \<Rightarrow> (t @ t', r)))"

text \<open>\<open>try { body } catch (error) { handler }\<close>: the events of the whole statement.\<close>

definition try_catch :: "unit action \<Rightarrow> (js_error \<Rightarrow> event list) \<Rightarrow> event list" where
  "try_catch body handler =
     (case body of
        (t, Inl e) \<Rightarrow> t @ handler e
      | (t, Inr u) \<Rightarrow> t)"

text \<open>
  \<open>v.k\<close> on any value: reading a property of \<open>undefined\<close> or \<open>null\<close> throws a
  \<open>TypeError\<close> (the wording of the message is the runtime's).
\<close>

definition get_prop :: "jsval \<Rightarrow> string \<Rightarrow> jsval action" where
  "get_prop v k =
     (if v = JUndefined then
        throw (Error (''Cannot read properties of undefined (reading '' @ [CHR 0x27] @ k @ [CHR 0x27] @ '')''))
      else if v = JNull then
        throw (Error (''Cannot read properties of null (reading '' @ [CHR 0x27] @ k @ [CHR 0x27] @ '')''))
      else resolve (read_prop v k))"

section \<open>The collaborators of the handlers\<close>

text \<open>
  The database and the hashing library are outside the controllers. \<open>db\<close> gives, for a
  call, what awaiting it yields: the rejection or the value. \<open>genSaltSync\<close> and
  \<open>hashSync\<close> are \<open>bcrypt\<close>'s functions of these names (\<open>hashSync\<close> throws on an
  argument that is not a string); \<open>compareSync\<close> is the library's check of an input
  against a hash, which no handler calls.
\<close>

record env =
  db :: "db_call \<Rightarrow> js_error + jsval"
  genSaltSync :: "nat \<Rightarrow> string"
  hashSync :: "jsval \<Rightarrow> string \<Rightarrow> js_error + string"
  compareSync :: "string \<Rightarrow> string \<Rightarrow> bool"

definition await :: "env \<Rightarrow> db_call \<Rightarrow> jsval action" where
  "await env q = ([Db q], db env q)"

text \<open>One failure reported by the validation library.\<close>

record validation_error =
  msg :: string
  param :: string

text \<open>
  What a handler reads of the request and of \<open>res.locals\<close>. \<open>validation\<close> is the list
  of the failures that the validators of the route, which run before the handler,
  recorded on the request. \<open>req_file\<close> is \<open>req.file\<close>, \<open>undefined\<close> when nothing was
  uploaded.
\<close>

record request =
  validation :: "validation_error list"
  params_id :: jsval
  query_topRight :: jsval
  query_bottomLeft :: jsval
  body :: "(string \<times> jsval) list"
  req_file :: jsval
  locals_user :: jsval
  locals_coords :: jsval

section \<open>The validation gate\<close>

text \<open>
  \<open>validationResult(x)\<close> of the validation library collects the failures from the
  validation contexts stored on the object \<open>x\<close> it is given. The validators store
  them on the request itself: \<open>validationResult(req)\<close> yields the failures of the
  request. \<open>req.params\<close> holds the route parameters only and no context, so
  \<open>validationResult(req.params)\<close> is empty whatever the validators found.
\<close>

datatype validated = WholeRequest | RouteParams

definition validationResult :: "validated \<Rightarrow> request \<Rightarrow> validation_error list" where
  "validationResult given req =
     (case given of
        WholeRequest \<Rightarrow> validation req
      | RouteParams \<Rightarrow> [])"

text \<open>\<open>Array.prototype.join\<close> on strings.\<close>

fun join :: "string \<Rightarrow> string list \<Rightarrow> string" where
  "join sep [] = []"
| "join sep [x] = x"
| "join sep (x # y # ys) = x @ sep @ join sep (y # ys)"

definition render :: "validation_error \<Rightarrow> string" where
  "render error = msg error @ '': '' @ param error"

text \<open>
  The block every validating handler but \<open>userDeleteCurrent\<close> opens with:
  \<^verbatim>\<open>
  if (!errors.isEmpty()) {
    const messages = errors.array().map((error) => `${error.msg}: ${error.param}`).join(', ');
    throw new CustomError(messages, 400);
  }\<close>
\<close>

definition validate :: "request \<Rightarrow> unit action" where
  "validate req =
     (let errors = validationResult WholeRequest req in
      if errors \<noteq> [] then
        (let messages = join '', '' (map render errors)
         in throw (CustomError messages 400))
      else resolve ())"

text \<open>
  \<open>userDeleteCurrent\<close> has its own copy of the block. It calls
  \<open>validationResult(req.params)\<close>, and the callback it gives to \<open>map\<close> has a block
  body with no \<open>return\<close>: it evaluates the template and yields \<open>undefined\<close>.
  \<open>join\<close> writes an \<open>undefined\<close> element as the empty string.
\<close>

definition join_elements :: "string \<Rightarrow> string option list \<Rightarrow> string" where
  "join_elements sep xs = join sep (map (\<lambda>x. case x of None \<Rightarrow> [] | Some s \<Rightarrow> s) xs)"

definition validate_userDeleteCurrent :: "request \<Rightarrow> unit action" where
  "validate_userDeleteCurrent req =
     (let errors = validationResult RouteParams req in
      if errors \<noteq> [] then
        (let messages = join_elements '', '' (map (\<lambda>error. None) errors)
         in throw (CustomError messages 400))
      else resolve ())"

text \<open>The catch blocks.\<close>

definition catch_500 :: "js_error \<Rightarrow> event list" where
  "catch_500 error = [Next (CustomError (message error) 500)]"

definition catch_log_500 :: "js_error \<Rightarrow> event list" where
  "catch_log_500 error = [Console error, Next (CustomError (message error) 500)]"

definition catch_log_forward :: "js_error \<Rightarrow> event list" where
  "catch_log_forward error = [Console error, Next error]"

section \<open>Parsing the corners of a bounding box\<close>

text \<open>\<open>s.split(',')\<close>: the pieces between the commas, at least one piece.\<close>

fun split_comma :: "string \<Rightarrow> string list" where
  "split_comma [] = [[]]"
| "split_comma (c # cs) =
     (if c = CHR '','' then [] # split_comma cs
      else (case split_comma cs of
              [] \<Rightarrow> [[c]]
            | w # ws \<Rightarrow> (c # w) # ws))"

text \<open>
  \<open>const [x, y] = v.split(',')\<close> on a query value: a string is split; on
  \<open>undefined\<close> (the parameter is absent) and on a value with no \<open>split\<close> method (an
  array or an object of the query parser) the statement throws a \<open>TypeError\<close>, with
  the runtime's message for a failed call inside an array destructuring.
\<close>

definition split_query :: "string \<Rightarrow> jsval \<Rightarrow> string list action" where
  "split_query name v =
     (case v of
        JStr s \<Rightarrow> resolve (split_comma s)
      | JUndefined \<Rightarrow>
          throw (Error (''Cannot read properties of undefined (reading '' @ [CHR 0x27] @ ''split'' @ [CHR 0x27] @ '')''))
      | JNull \<Rightarrow>
          throw (Error (''Cannot read properties of null (reading '' @ [CHR 0x27] @ ''split'' @ [CHR 0x27] @ '')''))
      | _ \<Rightarrow>
          throw (Error (name @ ''.split is not a function or its return value is not iterable'')))"

text \<open>An element taken by array destructuring: \<open>None\<close> is \<open>undefined\<close>.\<close>

definition element :: "'a list \<Rightarrow> nat \<Rightarrow> 'a option" where
  "element xs i = (if i < length xs then Some (xs ! i) else None)"

text \<open>
  \<open>parseInt(s)\<close> with no radix. Leading white space is skipped: the white space and
  line terminator characters of the language, here in their UTF-8 bytes (tab, line
  feed, vertical tab, form feed, carriage return, space; U+00A0; U+1680, U+2000 to
  U+200A, U+2028, U+2029, U+202F, U+205F, U+3000 and U+FEFF). Then comes an optional
  sign, then the prefix \<open>0x\<close> or \<open>0X\<close> selects radix 16 (radix 10 otherwise), then the
  longest run of digits of the radix is read, whatever follows it. With no digit the
  result is NaN; otherwise it is the double nearest to the integer the digits write
  (ties to the even significand, infinity beyond the largest double), with the sign, a
  negative zero being its own value.
\<close>

definition white1 :: "nat \<Rightarrow> bool" where
  "white1 a = (a = 32 \<or> (9 \<le> a \<and> a \<le> 13))"

definition white2 :: "nat \<Rightarrow> nat \<Rightarrow> bool" where
  "white2 a b = (a = 194 \<and> b = 160)"

definition white3 :: "nat \<Rightarrow> nat \<Rightarrow> nat \<Rightarrow> bool" where
  "white3 a b c =
     ((a = 225 \<and> b = 154 \<and> c = 128)
      \<or> (a = 226 \<and> b = 128 \<and> ((128 \<le> c \<and> c \<le> 138) \<or> c = 168 \<or> c = 169 \<or> c = 175))
      \<or> (a = 226 \<and> b = 129 \<and> c = 159)
      \<or> (a = 227 \<and> b = 128 \<and> c = 128)
      \<or> (a = 239 \<and> b = 187 \<and> c = 191))"

fun skip_white :: "string \<Rightarrow> string" where
  "skip_white [] = []"
| "skip_white (a # s) =
     (if white1 (of_char a) then skip_white s
      else (case s of
              [] \<Rightarrow> a # s
            | b # t \<Rightarrow>
                if white2 (of_char a) (of_char b) then skip_white t
                else (case t of
                        [] \<Rightarrow> a # s
                      | c # u \<Rightarrow>
                          if white3 (of_char a) (of_char b) (of_char c) then skip_white u
                          else a # s)))"

definition digit_of :: "nat \<Rightarrow> char \<Rightarrow> nat option" where
  "digit_of radix c =
     (let n = (of_char c :: nat);
          v = (if 48 \<le> n \<and> n \<le> 57 then Some (n - 48)
               else if 97 \<le> n \<and> n \<le> 122 then Some (n - 87)
               else if 65 \<le> n \<and> n \<le> 90 then Some (n - 55)
               else None)
      in case v of
           None \<Rightarrow> None
         | Some d \<Rightarrow> if d < radix then Some d else None)"

fun digits_prefix :: "nat \<Rightarrow> string \<Rightarrow> nat list" where
  "digits_prefix radix [] = []"
| "digits_prefix radix (c # cs) =
     (case digit_of radix c of
        None \<Rightarrow> []
      | Some d \<Rightarrow> d # digits_prefix radix cs)"

definition digits_value :: "nat \<Rightarrow> nat list \<Rightarrow> nat" where
  "digits_value radix ds = foldl (\<lambda>acc d. acc * radix + d) 0 ds"

text \<open>
  Rounding a natural number to a double. Below \<open>2 ^ 53 = 9007199254740992\<close> it is
  exact. Otherwise \<open>exponent n\<close> is the number of low bits that do not fit the 53-bit
  significand; they are rounded off to the nearest, ties to even. \<open>None\<close> is the
  overflow to infinity, from \<open>2 ^ 1024\<close> on after rounding.
\<close>

fun exponent :: "nat \<Rightarrow> nat" where
  "exponent n = (if n < 9007199254740992 then 0 else Suc (exponent (n div 2)))"

definition round_double :: "nat \<Rightarrow> nat option" where
  "round_double n =
     (let e = exponent n in
      if e = 0 then Some n
      else
        (let q = n div 2 ^ e; r = n mod 2 ^ e; half = 2 ^ (e - 1);
             q' = (if half < r \<or> (r = half \<and> odd q) then q + 1 else q)
         in if 971 < e \<or> (e = 971 \<and> q' = 9007199254740992) then None
            else Some (q' * 2 ^ e)))"

definition parse_unsigned :: "string \<Rightarrow> nat option" where
  "parse_unsigned s =
     (let (radix, rest) =
            (if take 2 s = ''0x'' \<or> take 2 s = ''0X'' then (16, drop 2 s) else (10, s));
          ds = digits_prefix radix rest
      in if ds = [] then None else Some (digits_value radix ds))"

text \<open>The sign (\<open>True\<close> for a minus) and the magnitude.\<close>

definition parse_signed :: "string \<Rightarrow> (bool \<times> nat) option" where
  "parse_signed s =
     (case s of
        [] \<Rightarrow> None
      | c # cs \<Rightarrow>
          if c = CHR ''-'' then map_option (Pair True) (parse_unsigned cs)
          else if c = CHR ''+'' then map_option (Pair False) (parse_unsigned cs)
          else map_option (Pair False) (parse_unsigned s))"

definition number_of :: "bool \<Rightarrow> nat \<Rightarrow> jsval" where
  "number_of negative n =
     (case round_double n of
        None \<Rightarrow> JInfinity negative
      | Some m \<Rightarrow>
          if negative then (if m = 0 then JNegZero else JNum (- real m))
          else JNum (real m))"

definition parseInt :: "string option \<Rightarrow> jsval" where
  "parseInt arg =
     (let s = (case arg of None \<Rightarrow> ''undefined'' | Some s \<Rightarrow> s)
      in case parse_signed (skip_white s) of
           None \<Rightarrow> JNaN
         | Some (negative, n) \<Rightarrow> number_of negative n)"

record coords =
  lat :: jsval
  lng :: jsval

text \<open>
  Modelled from the spec: the helper \<open>utils/rectangleBounds\<close> is not among the sources.
  The spec gives its contract: given two opposite corners, it returns a closed polygon
  covering the rectangle they define, the four corners of the axis-aligned rectangle in
  consistent winding order, for a within-polygon geometry query. The polygon is written
  as a geometry object whose ring lists the corners as \<open>[lng, lat]\<close> positions and ends
  where it starts.
\<close>

definition rectangleBounds :: "coords \<Rightarrow> coords \<Rightarrow> jsval" where
  "rectangleBounds topRight bottomLeft =
     JObj [(''type'', JStr ''Polygon''),
           (''coordinates'',
            JArr [JArr [JArr [lng bottomLeft, lat bottomLeft],
                        JArr [lng bottomLeft, lat topRight],
                        JArr [lng topRight, lat topRight],
                        JArr [lng topRight, lat bottomLeft],
                        JArr [lng bottomLeft, lat bottomLeft]]])]"

section \<open>The cat handlers\<close>

text \<open>
  Each handler is its try block, an action, and the handler itself, the events of the
  whole try statement. An early \<open>next(...); return;\<close> ends the try block normally.
\<close>

definition catGetByUser_try :: "env \<Rightarrow> request \<Rightarrow> unit action" where
  "catGetByUser_try env req =
     andThen (validate req) (\<lambda>_.
     andThen (get_prop (locals_user req) ''_id'') (\<lambda>user_id.
     andThen (await env (Query CatModel (Find (JObj [(''owner'', user_id)])) [])) (\<lambda>cats.
       if \<not> truthy cats then emit (Next (CustomError ''No cats found'' 404))
       else emit (Json cats))))"

definition catGetByUser :: "env \<Rightarrow> request \<Rightarrow> event list" where
  "catGetByUser env req = try_catch (catGetByUser_try env req) catch_500"

definition catGetByBoundingBox_try :: "env \<Rightarrow> request \<Rightarrow> unit action" where
  "catGetByBoundingBox_try env req =
     andThen (validate req) (\<lambda>_.
     andThen (split_query ''topRight'' (query_topRight req)) (\<lambda>tr.
     andThen (split_query ''bottomLeft'' (query_bottomLeft req)) (\<lambda>bl.
       let topRightLat = element tr 0; topRightLng = element tr 1;
           bottomLeftLat = element bl 0; bottomLeftLng = element bl 1;
           rectBounds = rectangleBounds
             \<lparr>lat = parseInt topRightLng, lng = parseInt topRightLat\<rparr>
             \<lparr>lat = parseInt bottomLeftLat, lng = parseInt bottomLeftLng\<rparr>
       in andThen (await env (Query CatModel
                     (Find (JObj [(''location'',
                        JObj [(''$geoWithin'', JObj [(''$geometry'', rectBounds)])])])) []))
            (\<lambda>cats.
               if \<not> truthy cats then emit (Next (CustomError ''No cats found'' 404))
               else emit (Json cats)))))"

definition catGetByBoundingBox :: "env \<Rightarrow> request \<Rightarrow> event list" where
  "catGetByBoundingBox env req = try_catch (catGetByBoundingBox_try env req) catch_500"

definition catPutAdmin_try :: "env \<Rightarrow> request \<Rightarrow> unit action" where
  "catPutAdmin_try env req =
     andThen (validate req) (\<lambda>_.
     andThen (get_prop (locals_user req) ''role'') (\<lambda>role.
       if role = JStr ''admin'' then
         andThen (await env (Query CatModel
                    (FindByIdAndUpdate (params_id req) (JObj (body req))
                       (JObj [(''new'', JBool True)])) []))
           (\<lambda>cat.
              if \<not> truthy cat then emit (Next (CustomError ''Cat not found'' 404))
              else emit (Json (JObj [(''message'', JStr ''Cat updated''), (''data'', cat)])))
       else resolve ()))"

definition catPutAdmin :: "env \<Rightarrow> request \<Rightarrow> event list" where
  "catPutAdmin env req = try_catch (catPutAdmin_try env req) catch_log_500"

definition catDeleteAdmin_try :: "env \<Rightarrow> request \<Rightarrow> unit action" where
  "catDeleteAdmin_try env req =
     andThen (validate req) (\<lambda>_.
     andThen (get_prop (locals_user req) ''role'') (\<lambda>role.
       if role = JStr ''admin'' then
         andThen (await env (Query CatModel
                    (FindByIdAndDelete (params_id req) JUndefined)
                    [Populate ''owner'' None]))
           (\<lambda>cat.
              if \<not> truthy cat then emit (Next (CustomError ''No cat found'' 404))
              else emit (Json (JObj [(''message'', JStr ''Cat deleted''), (''data'', cat)])))
       else resolve ()))"

definition catDeleteAdmin :: "env \<Rightarrow> request \<Rightarrow> event list" where
  "catDeleteAdmin env req = try_catch (catDeleteAdmin_try env req) catch_500"

definition catDelete_try :: "env \<Rightarrow> request \<Rightarrow> unit action" where
  "catDelete_try env req =
     andThen (validate req) (\<lambda>_.
     andThen (await env (Query CatModel (FindByIdAndDelete (params_id req) JUndefined) []))
       (\<lambda>cat.
          if \<not> truthy cat then emit (Next (CustomError ''No cat found'' 404))
          else emit (Json (JObj [(''message'', JStr ''Cat deleted''), (''data'', cat)]))))"

definition catDelete :: "env \<Rightarrow> request \<Rightarrow> event list" where
  "catDelete env req = try_catch (catDelete_try env req) catch_500"

definition catPut_try :: "env \<Rightarrow> request \<Rightarrow> unit action" where
  "catPut_try env req =
     andThen (validate req) (\<lambda>_.
     andThen (await env (Query CatModel
                (FindByIdAndUpdate (params_id req) (JObj (body req))
                   (JObj [(''new'', JBool True)])) []))
       (\<lambda>cat.
          if \<not> truthy cat then emit (Next (CustomError ''Cat not found'' 404))
          else emit (Json (JObj [(''message'', JStr ''Cat updated''), (''data'', cat)]))))"

definition catPut :: "env \<Rightarrow> request \<Rightarrow> event list" where
  "catPut env req = try_catch (catPut_try env req) catch_500"

definition catGet_try :: "env \<Rightarrow> request \<Rightarrow> unit action" where
  "catGet_try env req =
     andThen (validate req) (\<lambda>_.
     andThen (await env (Query CatModel (FindById (params_id req))
                [Populate ''owner'' (Some ''user_name email'')]))
       (\<lambda>cat.
          if \<not> truthy cat then emit (Next (CustomError ''No cat found'' 404))
          else emit (Json cat)))"

definition catGet :: "env \<Rightarrow> request \<Rightarrow> event list" where
  "catGet env req = try_catch (catGet_try env req) catch_500"

definition catListGet_try :: "env \<Rightarrow> request \<Rightarrow> unit action" where
  "catListGet_try env req =
     andThen (await env (Query CatModel (Find JUndefined)
                [Populate ''owner'' (Some ''user_name email'')]))
       (\<lambda>cats.
          if \<not> truthy cats then emit (Next (CustomError ''No cats found'' 404))
          else emit (Json cats))"

definition catListGet :: "env \<Rightarrow> request \<Rightarrow> event list" where
  "catListGet env req = try_catch (catListGet_try env req) catch_500"

definition catPost_try :: "env \<Rightarrow> request \<Rightarrow> unit action" where
  "catPost_try env req =
     andThen (validate req) (\<lambda>_.
       if \<not> truthy (req_file req) then throw (CustomError ''File not found'' 400)
       else
         (let body1 = obj_set ''location'' (locals_coords req) (body req);
              user = locals_user req
          in andThen (get_prop user ''_id'') (\<lambda>user_id.
               let body2 = obj_set ''owner'' user_id body1;
                   body3 = obj_set ''filename'' (read_prop (req_file req) ''filename'') body2
               in andThen (await env (Query CatModel (Create (JObj body3)) [])) (\<lambda>cat.
                    emit (Json (JObj [(''message'', JStr ''Cat created''), (''data'', cat)]))))))"

definition catPost :: "env \<Rightarrow> request \<Rightarrow> event list" where
  "catPost env req = try_catch (catPost_try env req) catch_log_500"

section \<open>The user handlers\<close>

definition userGet_try :: "env \<Rightarrow> request \<Rightarrow> unit action" where
  "userGet_try env req =
     andThen (validate req) (\<lambda>_.
     andThen (await env (Query UserModel (FindById (params_id req))
                [Select ''_id user_name email'']))
       (\<lambda>user. emit (Json user)))"

definition userGet :: "env \<Rightarrow> request \<Rightarrow> event list" where
  "userGet env req = try_catch (userGet_try env req) catch_500"

text \<open>After \<open>next(...)\<close> there is no \<open>return\<close> here: \<open>res.json(users)\<close> follows.\<close>

definition userListGet_try :: "env \<Rightarrow> request \<Rightarrow> unit action" where
  "userListGet_try env req =
     andThen (await env (Query UserModel (Find JUndefined) [Select ''-password -role'']))
       (\<lambda>users.
          andThen (if \<not> truthy users then emit (Next (CustomError ''No users found'' 404))
                   else resolve ())
            (\<lambda>_. emit (Json users)))"

definition userListGet :: "env \<Rightarrow> request \<Rightarrow> event list" where
  "userListGet env req = try_catch (userListGet_try env req) catch_500"

text \<open>The \<open>data\<close> object of the user responses, read from \<open>u\<close>.\<close>

definition user_output :: "jsval \<Rightarrow> jsval" where
  "user_output u =
     JObj [(''_id'', read_prop u ''_id''),
           (''user_name'', read_prop u ''user_name''),
           (''email'', read_prop u ''email'')]"

definition userPost_try :: "env \<Rightarrow> request \<Rightarrow> unit action" where
  "userPost_try env req =
     andThen (validate req) (\<lambda>_.
       let password = obj_get (body req) ''password'';
           salt = genSaltSync env 12
       in case hashSync env password salt of
            Inl e \<Rightarrow> throw e
          | Inr hashed \<Rightarrow>
              (let body1 = obj_set ''password'' (JStr hashed) (body req)
               in andThen (await env (Query UserModel
                             (Create (JObj (obj_set ''role'' (JStr ''user'') body1))) []))
                    (\<lambda>user.
                       andThen (get_prop user ''_id'') (\<lambda>_.
                         emit (Json (JObj [(''message'', JStr ''User created''),
                                           (''data'', user_output user)]))))))"

definition userPost :: "env \<Rightarrow> request \<Rightarrow> event list" where
  "userPost env req = try_catch (userPost_try env req) catch_log_500"

definition userPutCurrent_try :: "env \<Rightarrow> request \<Rightarrow> unit action" where
  "userPutCurrent_try env req =
     andThen (validate req) (\<lambda>_.
     andThen (get_prop (locals_user req) ''_id'') (\<lambda>user_id.
     andThen (await env (Query UserModel
                (FindByIdAndUpdate user_id (JObj (body req))
                   (JObj [(''new'', JBool True)])) []))
       (\<lambda>user.
          if \<not> truthy user then emit (Next (CustomError ''Not found'' 404))
          else emit (Json (JObj [(''message'', JStr ''User modified''),
                                 (''data'', user_output user)])))))"

definition userPutCurrent :: "env \<Rightarrow> request \<Rightarrow> event list" where
  "userPutCurrent env req = try_catch (userPutCurrent_try env req) catch_log_500"

definition userDeleteCurrent_try :: "env \<Rightarrow> request \<Rightarrow> unit action" where
  "userDeleteCurrent_try env req =
     andThen (validate_userDeleteCurrent req) (\<lambda>_.
     andThen (get_prop (locals_user req) ''_id'') (\<lambda>user_id.
     andThen (await env (Query UserModel
                (FindByIdAndDelete user_id (JObj (body req))) []))
       (\<lambda>user.
          if \<not> truthy user then emit (Next (CustomError ''User not found'' 404))
          else emit (Json (JObj [(''message'', JStr ''User deleted''),
                                 (''data'', user_output (locals_user req))])))))"

definition userDeleteCurrent :: "env \<Rightarrow> request \<Rightarrow> event list" where
  "userDeleteCurrent env req = try_catch (userDeleteCurrent_try env req) catch_log_forward"

text \<open>\<open>checkToken\<close> has no try statement and calls no model.\<close>

definition checkToken :: "request \<Rightarrow> event list" where
  "checkToken req =
     (if \<not> truthy (locals_user req) then [Next (CustomError ''Token is not valid'' 403)]
      else [Json (user_output (locals_user req))])"

section \<open>The handlers with a try statement, as a family\<close>

datatype handler =
    CatGetByUser | CatGetByBoundingBox | CatPutAdmin | CatDeleteAdmin | CatDelete
  | CatPut | CatGet | CatListGet | CatPost
  | UserGet | UserListGet | UserPost | UserPutCurrent | UserDeleteCurrent

fun try_block :: "handler \<Rightarrow> env \<Rightarrow> request \<Rightarrow> unit action" where
  "try_block CatGetByUser = catGetByUser_try"
| "try_block CatGetByBoundingBox = catGetByBoundingBox_try"
| "try_block CatPutAdmin = catPutAdmin_try"
| "try_block CatDeleteAdmin = catDeleteAdmin_try"
| "try_block CatDelete = catDelete_try"
| "try_block CatPut = catPut_try"
| "try_block CatGet = catGet_try"
| "try_block CatListGet = catListGet_try"
| "try_block CatPost = catPost_try"
| "try_block UserGet = userGet_try"
| "try_block UserListGet = userListGet_try"
| "try_block UserPost = userPost_try"
| "try_block UserPutCurrent = userPutCurrent_try"
| "try_block UserDeleteCurrent = userDeleteCurrent_try"

fun handle :: "handler \<Rightarrow> env \<Rightarrow> request \<Rightarrow> event list" where
  "handle CatGetByUser = catGetByUser"
| "handle CatGetByBoundingBox = catGetByBoundingBox"
| "handle CatPutAdmin = catPutAdmin"
| "handle CatDeleteAdmin = catDeleteAdmin"
| "handle CatDelete = catDelete"
| "handle CatPut = catPut"
| "handle CatGet = catGet"
| "handle CatListGet = catListGet"
| "handle CatPost = catPost"
| "handle UserGet = userGet"
| "handle UserListGet = userListGet"
| "handle UserPost = userPost"
| "handle UserPutCurrent = userPutCurrent"
| "handle UserDeleteCurrent = userDeleteCurrent"

text \<open>The handlers whose catch block writes the error to the console first.\<close>

fun logs_error :: "handler \<Rightarrow> bool" where
  "logs_error CatPutAdmin = True"
| "logs_error CatPost = True"
| "logs_error UserPost = True"
| "logs_error UserPutCurrent = True"
| "logs_error UserDeleteCurrent = True"
| "logs_error h = False"

text \<open>A database on which every call is rejected with the same error.\<close>

definition rejecting :: "js_error \<Rightarrow> env" where
  "rejecting e =
     \<lparr>db = (\<lambda>q. Inl e), genSaltSync = (\<lambda>rounds. ''salt''),
      hashSync = (\<lambda>v salt. Inl (Error ''Illegal arguments'')),
      compareSync = (\<lambda>s h. False)\<rparr>"

section \<open>The bounding-box query on a collection\<close>













section \<open>Sample inputs\<close>

text \<open>
  A request of an authenticated caller of role \<open>user\<close> that passes validation, and two
  environments: \<open>rejecting e\<close> above, and \<open>answering v\<close>, whose database answers
  every call with \<open>v\<close> and whose hashing functions are a stand-in for the library (the
  salt is prepended to the input, and the check compares the end of the hash).
\<close>

definition sample_request :: request where
  "sample_request =
     \<lparr>validation = [], params_id = JStr ''c1'',
      query_topRight = JStr ''10.9,10.2'', query_bottomLeft = JStr ''0.5,0.7'',
      body = [(''user_name'', JStr ''ann''), (''email'', JStr ''ann@example.org''),
              (''password'', JStr ''secret''), (''role'', JStr ''admin'')],
      req_file = JUndefined,
      locals_user = JObj [(''_id'', JStr ''u1''), (''user_name'', JStr ''ann''),
                          (''email'', JStr ''ann@example.org''), (''role'', JStr ''user'')],
      locals_coords = JArr [JNum 60, JNum 24]\<rparr>"

definition answering :: "jsval \<Rightarrow> env" where
  "answering v =
     \<lparr>db = (\<lambda>q. Inr v),
      genSaltSync = (\<lambda>rounds. replicate rounds (CHR ''$'')),
      hashSync = (\<lambda>p salt. case p of
                     JStr s \<Rightarrow> Inr (salt @ s)
                   | _ \<Rightarrow> Inl (Error ''Illegal arguments'')),
      compareSync = (\<lambda>s h. length s \<le> length h \<and> drop (length h - length s) h = s)\<rparr>"


section \<open>Basic facts\<close>

lemmas action_defs =
  resolve_def throw_def emit_def andThen_def try_catch_def get_prop_def await_def
  validationResult_def validate_def validate_userDeleteCurrent_def catch_500_def
  catch_log_500_def catch_log_forward_def join_elements_def render_def


declare exponent.simps [simp del]


lemma map_of_replace_other:
  "k' \<noteq> k \<Longrightarrow>
   map_of (map (\<lambda>(a, b). if a = k then (a, v) else (a, b)) ps) k' = map_of ps k'"
  by (induction ps) auto

lemma map_of_replace_same:
  "k \<in> fst ` set ps \<Longrightarrow>
   map_of (map (\<lambda>(a, b). if a = k then (a, v) else (a, b)) ps) k = Some v"
  by (induction ps) auto

text \<open>Reading after an assignment.\<close>

lemma obj_get_set: "obj_get (obj_set k v ps) k' = (if k' = k then v else obj_get ps k')"
proof (cases "k' = k")
  case True
  show ?thesis
  proof (cases "k \<in> fst ` set ps")
    case True
    with \<open>k' = k\<close> show ?thesis
      by (simp add: obj_get_def obj_set_def map_of_replace_same)
  next
    case False
    then have "map_of ps k = None" by (simp add: map_of_eq_None_iff)
    with False \<open>k' = k\<close> show ?thesis
      by (simp add: obj_get_def obj_set_def map_add_def)
  qed
next
  case False
  then show ?thesis
    by (simp add: obj_get_def obj_set_def map_of_replace_other map_add_def split: option.splits)
qed

text \<open>The message and the status the validation block throws.\<close>

lemma validate_failure:
  "validation req \<noteq> [] \<Longrightarrow>
   validate req = ([], Inl (CustomError (join '', '' (map render (validation req))) 400))"
  by (simp add: validate_def validationResult_def throw_def)

lemma validate_pass: "validation req = [] \<Longrightarrow> validate req = ([], Inr ())"
  by (simp add: validate_def validationResult_def resolve_def)

text \<open>The validation block of \<open>userDeleteCurrent\<close> never throws.\<close>

lemma validate_userDeleteCurrent_pass: "validate_userDeleteCurrent req = ([], Inr ())"
  by (simp add: validate_userDeleteCurrent_def validationResult_def resolve_def)

section \<open>The validation gate in the handlers\<close>

text \<open>
  In every handler that opens with the validation block of \<open>validate\<close>, a request
  with failures ends there: no database call, and \<open>next\<close> receives the joined
  message in a new error of status 500.
\<close>

lemma validation_failure_trace:
  assumes "validation req \<noteq> []"
    and "h \<noteq> CatListGet" and "h \<noteq> UserListGet" and "h \<noteq> UserDeleteCurrent"
  shows "handle h env req =
           (if logs_error h
            then [Console (CustomError (join '', '' (map render (validation req))) 400)]
            else [])
           @ [Next (CustomError (join '', '' (map render (validation req))) 500)]"
  using assms
  by (cases h)
     (simp_all add: catGetByUser_def catGetByUser_try_def catGetByBoundingBox_def
        catGetByBoundingBox_try_def catPutAdmin_def catPutAdmin_try_def catDeleteAdmin_def
        catDeleteAdmin_try_def catDelete_def catDelete_try_def catPut_def catPut_try_def
        catGet_def catGet_try_def catPost_def catPost_try_def userGet_def userGet_try_def
        userPost_def userPost_try_def userPutCurrent_def userPutCurrent_try_def
        validate_failure andThen_def try_catch_def catch_500_def catch_log_500_def)

text \<open>
  C1. Claim: for every handler, a request that fails field validation makes the
  operation fail with a BadRequest error of status 400 carrying the joined failure
  string, before any database access. On a request with the two failures
  \<open>Invalid value: id\<close> and \<open>Required: name\<close>, \<open>catGetByUser\<close> and \<open>userPost\<close>
  make no database call and hand \<open>next\<close> an error with the joined string, but with
  status 500: the error thrown with status 400 is caught by the handler's own catch
  block, which builds a new error of status 500 from its message.
\<close>

theorem validation_failure_forwarded_as_500:
  "catGetByUser env
     (req\<lparr>validation := [\<lparr>msg = ''Invalid value'', param = ''id''\<rparr>,
                          \<lparr>msg = ''Required'', param = ''name''\<rparr>]\<rparr>)
     = [Next (CustomError ''Invalid value: id, Required: name'' 500)]
   \<and> userPost env
     (req\<lparr>validation := [\<lparr>msg = ''Invalid value'', param = ''id''\<rparr>,
                          \<lparr>msg = ''Required'', param = ''name''\<rparr>]\<rparr>)
     = [Console (CustomError ''Invalid value: id, Required: name'' 400),
        Next (CustomError ''Invalid value: id, Required: name'' 500)]"
  by (simp add: catGetByUser_def catGetByUser_try_def userPost_def userPost_try_def action_defs)

section \<open>The catch blocks\<close>

text \<open>
  Whenever the try block of a handler ends with a thrown error \<open>e\<close>, the handler has
  performed the events of the try block, then writes \<open>e\<close> to the console if its
  catch block logs, then hands \<open>next\<close> one error: in \<open>userDeleteCurrent\<close> the error
  \<open>e\<close> itself, in every other handler a new error with the message of \<open>e\<close> and
  status 500, whatever the status of \<open>e\<close> was.
\<close>

lemma catch_block_forwarding:
  assumes "try_block h env req = (t, Inl e)"
  shows "handle h env req =
           t @ (if logs_error h then [Console e] else [])
             @ [Next (if h = UserDeleteCurrent then e else CustomError (message e) 500)]"
  using assms
  by (cases h)
     (simp_all add: catGetByUser_def catGetByBoundingBox_def catPutAdmin_def catDeleteAdmin_def
        catDelete_def catPut_def catGet_def catListGet_def catPost_def userGet_def
        userListGet_def userPost_def userPutCurrent_def userDeleteCurrent_def try_catch_def
        catch_500_def catch_log_500_def catch_log_forward_def)

text \<open>
  C2. Claim: in every handler, an error thrown inside the try block is rewritten by the
  catch block to an error of status 500, whatever its original status. The catch block
  of \<open>userDeleteCurrent\<close> alone calls \<open>next(error)\<close>: when the database rejects the
  deletion with a plain error, that error reaches \<open>next\<close> as it is, with no status;
  when the rejection carries status 404, it reaches \<open>next\<close> with status 404. In
  neither case does \<open>next\<close> receive an error of status 500, which the same rejection
  gives in the sibling \<open>userPutCurrent\<close>.
\<close>

theorem userDeleteCurrent_forwards_unchanged:
  "handle UserDeleteCurrent (rejecting (Error ''connection lost'')) sample_request
     = [Db (Query UserModel (FindByIdAndDelete (JStr ''u1'') (JObj (body sample_request))) []),
        Console (Error ''connection lost''),
        Next (Error ''connection lost'')]
   \<and> status (Error ''connection lost'') = None
   \<and> handle UserDeleteCurrent (rejecting (CustomError ''gone'' 404)) sample_request
     = [Db (Query UserModel (FindByIdAndDelete (JStr ''u1'') (JObj (body sample_request))) []),
        Console (CustomError ''gone'' 404),
        Next (CustomError ''gone'' 404)]
   \<and> handle UserPutCurrent (rejecting (Error ''connection lost'')) sample_request
     = [Db (Query UserModel (FindByIdAndUpdate (JStr ''u1'') (JObj (body sample_request))
              (JObj [(''new'', JBool True)])) []),
        Console (Error ''connection lost''),
        Next (CustomError ''connection lost'' 500)]"
  by (simp add: userDeleteCurrent_def userDeleteCurrent_try_def userPutCurrent_def
        userPutCurrent_try_def action_defs sample_request_def rejecting_def obj_get_def)

text \<open>
  C3. Claim: in every handler and for every validation failure, the error message has
  one segment \<open>msg: param\<close> per failing field, joined with a comma and a space.
  \<open>userDeleteCurrent\<close> asks the library for the failures of \<open>req.params\<close>, which
  holds none, so the failures of the request make no difference to it: on a request
  with the two failures \<open>Invalid value: id\<close> and \<open>Required: name\<close> it builds no
  message and deletes the caller's record, where the sibling \<open>catDelete\<close> hands
  \<open>next\<close> the message with both segments.
\<close>

theorem userDeleteCurrent_ignores_validation_failures:
  "userDeleteCurrent env (req\<lparr>validation := failures\<rparr>)
     = userDeleteCurrent env (req\<lparr>validation := []\<rparr>)
   \<and> userDeleteCurrent (answering (JObj [(''_id'', JStr ''u1'')]))
       (sample_request\<lparr>validation := [\<lparr>msg = ''Invalid value'', param = ''id''\<rparr>,
                                        \<lparr>msg = ''Required'', param = ''name''\<rparr>]\<rparr>)
     = [Db (Query UserModel (FindByIdAndDelete (JStr ''u1'') (JObj (body sample_request))) []),
        Json (JObj [(''message'', JStr ''User deleted''),
                    (''data'', JObj [(''_id'', JStr ''u1''), (''user_name'', JStr ''ann''),
                                     (''email'', JStr ''ann@example.org'')])])]
   \<and> catDelete (answering (JObj [(''_id'', JStr ''u1'')]))
       (sample_request\<lparr>validation := [\<lparr>msg = ''Invalid value'', param = ''id''\<rparr>,
                                        \<lparr>msg = ''Required'', param = ''name''\<rparr>]\<rparr>)
     = [Next (CustomError ''Invalid value: id, Required: name'' 500)]"
proof (intro conjI)
  show "userDeleteCurrent env (req\<lparr>validation := failures\<rparr>)
     = userDeleteCurrent env (req\<lparr>validation := []\<rparr>)"
    by (simp add: userDeleteCurrent_def userDeleteCurrent_try_def action_defs
          split: sum.splits prod.splits)
qed (simp_all add: userDeleteCurrent_def userDeleteCurrent_try_def catDelete_def
       catDelete_try_def action_defs sample_request_def answering_def obj_get_def
       user_output_def)

section \<open>The user handlers: what is stored and what is answered\<close>

text \<open>The events of \<open>userPutCurrent\<close> for an authenticated caller, after validation.\<close>

lemma userPutCurrent_trace:
  assumes "validation req = []" "locals_user req = JObj u"
  shows "userPutCurrent env req =
     (let q = Query UserModel (FindByIdAndUpdate (obj_get u ''_id'') (JObj (body req))
                 (JObj [(''new'', JBool True)])) []
      in Db q # (case db env q of
                   Inl e \<Rightarrow> [Console e, Next (CustomError (message e) 500)]
                 | Inr user \<Rightarrow>
                     if truthy user
                     then [Json (JObj [(''message'', JStr ''User modified''),
                                       (''data'', user_output user)])]
                     else [Next (CustomError ''Not found'' 404)]))"
  using assms
  by (simp add: userPutCurrent_def userPutCurrent_try_def action_defs Let_def split: sum.splits)

text \<open>The first event of \<open>userPost\<close> once the password is hashed.\<close>

lemma userPost_first:
  assumes "validation req = []"
    and "hashSync env (obj_get (body req) ''password'') (genSaltSync env 12) = Inr hashed"
  shows "take 1 (userPost env req) =
     [Db (Query UserModel (Create (JObj (obj_set ''role'' (JStr ''user'')
            (obj_set ''password'' (JStr hashed) (body req))))) [])]"
  using assms
  by (simp add: userPost_def userPost_try_def action_defs Let_def split: sum.splits prod.splits)

text \<open>
  C4. Claim: the role of a user record is never client-settable; creation stores the
  role \<open>user\<close> whatever the body says, and no other operation stores a role taken from
  the body. \<open>userPutCurrent\<close> on the body \<open>{role: "admin"}\<close>, sent by a caller of role
  \<open>user\<close>, passes that body to \<open>findByIdAndUpdate\<close> as the update.
\<close>

theorem userPutCurrent_role_from_body:
  "take 1 (userPutCurrent env (sample_request\<lparr>body := [(''role'', JStr ''admin'')]\<rparr>)) =
   [Db (Query UserModel (FindByIdAndUpdate (JStr ''u1'') (JObj [(''role'', JStr ''admin'')])
          (JObj [(''new'', JBool True)])) [])]"
  by (simp add: userPutCurrent_trace [where u = "[(''_id'', JStr ''u1''), (''user_name'', JStr ''ann''),
                          (''email'', JStr ''ann@example.org''), (''role'', JStr ''user'')]"]
        sample_request_def Let_def obj_get_def)

text \<open>
  C7. For every successful user creation (validation passes, the password is a string
  that the library hashes with a salt of cost factor 12, and the database answers the
  insertion with a document), the handler inserts the body with the password replaced
  by the hash and the role set to \<open>user\<close>, and answers with the message and a \<open>data\<close>
  object of exactly \<open>_id\<close>, \<open>user_name\<close> and \<open>email\<close> read from the inserted document.
  With the library's contract at this input (the hash differs from the input and
  verifies against it), the value stored as password is a string that differs from
  the client's input and verifies against it.
\<close>

theorem userPost_stores_hash_and_answers_three_fields:
  assumes "validation req = []"
    and "obj_get (body req) ''password'' = JStr password"
    and "hashSync env (JStr password) (genSaltSync env 12) = Inr hashed"
    and "hashed \<noteq> password"
    and "compareSync env password hashed"
    and "stored = obj_set ''role'' (JStr ''user'') (obj_set ''password'' (JStr hashed) (body req))"
    and "db env (Query UserModel (Create (JObj stored)) []) = Inr user"
    and "user \<noteq> JUndefined" and "user \<noteq> JNull"
  shows "userPost env req =
           [Db (Query UserModel (Create (JObj stored)) []),
            Json (JObj [(''message'', JStr ''User created''),
                        (''data'', JObj [(''_id'', read_prop user ''_id''),
                                         (''user_name'', read_prop user ''user_name''),
                                         (''email'', read_prop user ''email'')])])]
         \<and> (\<exists>h. obj_get stored ''password'' = JStr h \<and> h \<noteq> password
                 \<and> compareSync env password h)
         \<and> obj_get stored ''role'' = JStr ''user''"
  using assms
  by (simp add: userPost_def userPost_try_def action_defs Let_def user_output_def obj_get_set)

theorem userPost_stores_hash_and_answers_three_fields_witness:
  "userPost (answering (JObj [(''_id'', JStr ''u9''), (''user_name'', JStr ''ann''),
                              (''email'', JStr ''ann@example.org''),
                              (''password'', JStr ''$$$$$$$$$$$$secret''),
                              (''role'', JStr ''user'')])) sample_request =
     [Db (Query UserModel (Create (JObj
            [(''user_name'', JStr ''ann''), (''email'', JStr ''ann@example.org''),
             (''password'', JStr ''$$$$$$$$$$$$secret''), (''role'', JStr ''user'')])) []),
      Json (JObj [(''message'', JStr ''User created''),
                  (''data'', JObj [(''_id'', JStr ''u9''), (''user_name'', JStr ''ann''),
                                   (''email'', JStr ''ann@example.org'')])])]"
proof -
  let ?doc = "JObj [(''_id'', JStr ''u9''), (''user_name'', JStr ''ann''),
                    (''email'', JStr ''ann@example.org''),
                    (''password'', JStr ''$$$$$$$$$$$$secret''),
                    (''role'', JStr ''user'')]"
  let ?stored = "[(''user_name'', JStr ''ann''), (''email'', JStr ''ann@example.org''),
             (''password'', JStr ''$$$$$$$$$$$$secret''), (''role'', JStr ''user'')]"
  have salt: "genSaltSync (answering ?doc) 12 = ''$$$$$$$$$$$$''"
    by (simp add: answering_def eval_nat_numeral)
  have a1: "validation sample_request = []" by (simp add: sample_request_def)
  have a2: "obj_get (body sample_request) ''password'' = JStr ''secret''"
    by (simp add: sample_request_def obj_get_def)
  have a3: "hashSync (answering ?doc) (JStr ''secret'') (genSaltSync (answering ?doc) 12)
              = Inr ''$$$$$$$$$$$$secret''"
    unfolding salt by (simp add: answering_def)
  have a4: "''$$$$$$$$$$$$secret'' \<noteq> ''secret''" by simp
  have a5: "compareSync (answering ?doc) ''secret'' ''$$$$$$$$$$$$secret''"
    by (simp add: answering_def)
  have a6: "?stored = obj_set ''role'' (JStr ''user'')
              (obj_set ''password'' (JStr ''$$$$$$$$$$$$secret'') (body sample_request))"
    by (simp add: sample_request_def obj_set_def)
  have a7: "db (answering ?doc) (Query UserModel (Create (JObj ?stored)) []) = Inr ?doc"
    by (simp add: answering_def)
  from userPost_stores_hash_and_answers_three_fields [OF a1 a2 a3 a4 a5 a6 a7]
  show ?thesis by (simp add: obj_get_def)
qed

text \<open>
  C9. In \<open>userPutCurrent\<close>, for an authenticated caller and a request that passes
  validation, the one database call is \<open>findByIdAndUpdate\<close> with the caller's
  identity and the request body itself as the update, so a password in the body is
  stored as the client sent it; the events do not depend on the hashing functions. On
  creation, by contrast, the inserted document carries the hash.
\<close>

theorem userPutCurrent_body_verbatim:
  assumes "validation req = []" and "locals_user req = JObj u"
  shows "userPutCurrent env req =
           (let q = Query UserModel (FindByIdAndUpdate (obj_get u ''_id'') (JObj (body req))
                       (JObj [(''new'', JBool True)])) []
            in Db q # (case db env q of
                         Inl e \<Rightarrow> [Console e, Next (CustomError (message e) 500)]
                       | Inr user \<Rightarrow>
                           if truthy user
                           then [Json (JObj [(''message'', JStr ''User modified''),
                                             (''data'', user_output user)])]
                           else [Next (CustomError ''Not found'' 404)]))
         \<and> userPutCurrent (env\<lparr>genSaltSync := g, hashSync := f\<rparr>) req = userPutCurrent env req
         \<and> (hashSync env (obj_get (body req) ''password'') (genSaltSync env 12) = Inr hashed \<longrightarrow>
              take 1 (userPost env req) =
                [Db (Query UserModel (Create (JObj (obj_set ''role'' (JStr ''user'')
                       (obj_set ''password'' (JStr hashed) (body req))))) [])])"
proof (intro conjI impI)
  show "userPutCurrent env req =
           (let q = Query UserModel (FindByIdAndUpdate (obj_get u ''_id'') (JObj (body req))
                       (JObj [(''new'', JBool True)])) []
            in Db q # (case db env q of
                         Inl e \<Rightarrow> [Console e, Next (CustomError (message e) 500)]
                       | Inr user \<Rightarrow>
                           if truthy user
                           then [Json (JObj [(''message'', JStr ''User modified''),
                                             (''data'', user_output user)])]
                           else [Next (CustomError ''Not found'' 404)]))"
    using userPutCurrent_trace [OF assms] .
next
  show "userPutCurrent (env\<lparr>genSaltSync := g, hashSync := f\<rparr>) req = userPutCurrent env req"
    by (simp add: userPutCurrent_def userPutCurrent_try_def await_def)
next
  assume "hashSync env (obj_get (body req) ''password'') (genSaltSync env 12) = Inr hashed"
  with assms(1) show "take 1 (userPost env req) =
                [Db (Query UserModel (Create (JObj (obj_set ''role'' (JStr ''user'')
                       (obj_set ''password'' (JStr hashed) (body req))))) [])]"
    by (rule userPost_first)
qed

theorem userPutCurrent_body_verbatim_witness:
  "userPutCurrent (answering JNull) sample_request =
     [Db (Query UserModel
            (FindByIdAndUpdate (JStr ''u1'')
               (JObj [(''user_name'', JStr ''ann''), (''email'', JStr ''ann@example.org''),
                      (''password'', JStr ''secret''), (''role'', JStr ''admin'')])
               (JObj [(''new'', JBool True)])) []),
      Next (CustomError ''Not found'' 404)]
   \<and> take 1 (userPost (answering JNull) sample_request) =
     [Db (Query UserModel (Create (JObj
            [(''user_name'', JStr ''ann''), (''email'', JStr ''ann@example.org''),
             (''password'', JStr ''$$$$$$$$$$$$secret''), (''role'', JStr ''user'')])) [])]"
proof -
  have v: "validation sample_request = []" by (simp add: sample_request_def)
  have u: "locals_user sample_request =
       JObj [(''_id'', JStr ''u1''), (''user_name'', JStr ''ann''),
             (''email'', JStr ''ann@example.org''), (''role'', JStr ''user'')]"
    by (simp add: sample_request_def)
  have h: "hashSync (answering JNull) (obj_get (body sample_request) ''password'')
             (genSaltSync (answering JNull) 12) = Inr ''$$$$$$$$$$$$secret''"
    by (simp add: answering_def sample_request_def obj_get_def eval_nat_numeral)
  from userPutCurrent_body_verbatim [OF v u, of "answering JNull" _ _ "''$$$$$$$$$$$$secret''"] h
  show ?thesis
    by (simp add: sample_request_def answering_def obj_get_def obj_set_def Let_def)
qed

text \<open>
  C10. In \<open>userListGet\<close>, when the query yields a falsy result (\<open>null\<close> and
  \<open>undefined\<close> are falsy), the handler hands \<open>next\<close> a 404 error and, with no
  \<open>return\<close> after it, still sends that result as the JSON response.
\<close>

theorem userListGet_not_found_and_response:
  assumes "db env (Query UserModel (Find JUndefined) [Select ''-password -role'']) = Inr users"
    and "\<not> truthy users"
  shows "userListGet env req =
     [Db (Query UserModel (Find JUndefined) [Select ''-password -role'']),
      Next (CustomError ''No users found'' 404),
      Json users]"
  using assms by (simp add: userListGet_def userListGet_try_def action_defs)

theorem userListGet_not_found_and_response_witness:
  "userListGet (answering JNull) sample_request =
     [Db (Query UserModel (Find JUndefined) [Select ''-password -role'']),
      Next (CustomError ''No users found'' 404),
      Json JNull]"
proof -
  have a: "db (answering JNull) (Query UserModel (Find JUndefined) [Select ''-password -role''])
        = Inr JNull"
    by (simp add: answering_def)
  have b: "\<not> truthy JNull" by simp
  from userListGet_not_found_and_response [OF a b] show ?thesis .
qed

section \<open>The cat handlers\<close>

text \<open>
  C6. Claim: a cat creation with no uploaded file fails with a BadRequest error of
  status 400 and inserts nothing. On a request that passes validation and has no file,
  \<open>catPost\<close> makes no database call, but the error it throws with status 400 reaches
  \<open>next\<close> rewritten by its catch block, with status 500.
\<close>

theorem catPost_missing_file:
  "catPost env (req\<lparr>validation := [], req_file := JUndefined\<rparr>)
     = [Console (CustomError ''File not found'' 400), Next (CustomError ''File not found'' 500)]"
  by (simp add: catPost_def catPost_try_def action_defs)

text \<open>
  With a file, the inserted document has its \<open>location\<close>, \<open>owner\<close> and \<open>filename\<close>
  assigned from \<open>res.locals.coords\<close>, the caller's \<open>_id\<close> and the name of the stored
  upload, over whatever the body held.
\<close>

lemma catPost_trace:
  assumes "validation req = []" "truthy (req_file req)" "locals_user req = JObj u"
  shows "catPost env req =
     (let stored = obj_set ''filename'' (read_prop (req_file req) ''filename'')
                     (obj_set ''owner'' (obj_get u ''_id'')
                        (obj_set ''location'' (locals_coords req) (body req)));
          q = Query CatModel (Create (JObj stored)) []
      in Db q # (case db env q of
                   Inl e \<Rightarrow> [Console e, Next (CustomError (message e) 500)]
                 | Inr cat \<Rightarrow> [Json (JObj [(''message'', JStr ''Cat created''), (''data'', cat)])]))"
  using assms
  by (simp add: catPost_def catPost_try_def action_defs Let_def split: sum.splits)

text \<open>
  C8. An admin-only update or delete of a cat, requested by a caller whose role is not
  \<open>admin\<close> on a request that passes validation, does nothing: no database call, no
  response, no error handed to \<open>next\<close>.
\<close>

theorem admin_only_silent_for_others:
  assumes "validation req = []"
    and "locals_user req = JObj u"
    and "obj_get u ''role'' \<noteq> JStr ''admin''"
  shows "catPutAdmin env req = [] \<and> catDeleteAdmin env req = []"
  using assms
  by (simp add: catPutAdmin_def catPutAdmin_try_def catDeleteAdmin_def catDeleteAdmin_try_def
        action_defs)

theorem admin_only_silent_for_others_witness:
  "validation sample_request = []
   \<and> locals_user sample_request =
       JObj [(''_id'', JStr ''u1''), (''user_name'', JStr ''ann''),
             (''email'', JStr ''ann@example.org''), (''role'', JStr ''user'')]
   \<and> obj_get [(''_id'', JStr ''u1''), (''user_name'', JStr ''ann''),
              (''email'', JStr ''ann@example.org''), (''role'', JStr ''user'')] ''role''
       \<noteq> JStr ''admin''
   \<and> catPutAdmin (answering JNull) sample_request = []
   \<and> catDeleteAdmin (answering JNull) sample_request = []"
proof -
  have v: "validation sample_request = []" by (simp add: sample_request_def)
  have u: "locals_user sample_request =
       JObj [(''_id'', JStr ''u1''), (''user_name'', JStr ''ann''),
             (''email'', JStr ''ann@example.org''), (''role'', JStr ''user'')]"
    by (simp add: sample_request_def)
  have r: "obj_get [(''_id'', JStr ''u1''), (''user_name'', JStr ''ann''),
              (''email'', JStr ''ann@example.org''), (''role'', JStr ''user'')] ''role''
       \<noteq> JStr ''admin''"
    by (simp add: obj_get_def)
  from admin_only_silent_for_others [OF v u r, of "answering JNull"] v u r show ?thesis by simp
qed

text \<open>The three fields assigned by \<open>catPost\<close> read back as assigned.\<close>

lemma catPost_server_assigned:
  "obj_get (obj_set ''filename'' name (obj_set ''owner'' owner (obj_set ''location'' coords b)))
      ''location'' = coords
   \<and> obj_get (obj_set ''filename'' name (obj_set ''owner'' owner (obj_set ''location'' coords b)))
      ''owner'' = owner
   \<and> obj_get (obj_set ''filename'' name (obj_set ''owner'' owner (obj_set ''location'' coords b)))
      ''filename'' = name"
  by (simp add: obj_get_set)

section \<open>The bounding-box query\<close>






















end
